theory Spec2Isabelle
  imports Main "HOL-Library.Word"
begin

section \<open>BranchBQOperator: branching on a BigQuery result row\<close>

text \<open>
  A shallow embedding of \<^verbatim>\<open>src/bq_branch/plugins/bq_branch.py\<close>. The file holds one
  class, \<^verbatim>\<open>BranchBQOperator\<close>, with a constructor and the method \<^verbatim>\<open>execute\<close>.
  The collaborators the class calls but does not define (the BigQuery hook, the
  base-class constructor, the scheduler's skip operation, the logger) appear as
  parameters or as recorded events.
\<close>

subsection \<open>Python values and their truthiness\<close>

text \<open>
  The values a result row may hold. A float is kept as its 64 IEEE-754 bits: Python's
  \<^verbatim>\<open>bool(x)\<close> on a float is \<^verbatim>\<open>x != 0.0\<close>, which is false for the two zeros
  (all bits clear, or only the sign bit set) and true for everything else, NaN included.
  A dictionary is kept as its list of items; only its emptiness is ever inspected.
\<close>

datatype pyval =
    PyNone
  | PyBool bool
  | PyInt int
  | PyFloat "64 word"
  | PyStr string
  | PyList "pyval list"
  | PyDict "(pyval \<times> pyval) list"

text \<open>\<^verbatim>\<open>bool(r)\<close> of line 115, for the values above.\<close>

fun py_bool :: "pyval \<Rightarrow> bool" where
  "py_bool PyNone = False"
| "py_bool (PyBool b) = b"
| "py_bool (PyInt i) = (i \<noteq> 0)"
| "py_bool (PyFloat w) = (w \<noteq> 0 \<and> w \<noteq> 0x8000000000000000)"
| "py_bool (PyStr s) = (s \<noteq> [])"
| "py_bool (PyList xs) = (xs \<noteq> [])"
| "py_bool (PyDict kvs) = (kvs \<noteq> [])"

subsection \<open>The operator object\<close>

text \<open>
  The attributes \<^verbatim>\<open>__init__\<close> assigns (lines 96 to 101). \<^verbatim>\<open>sql\<close>,
  \<^verbatim>\<open>pass_task\<close>, \<^verbatim>\<open>fail_task\<close> and \<^verbatim>\<open>delegate_to\<close> default to
  \<^verbatim>\<open>None\<close>, hence the option types.
\<close>

record operator =
  bigquery_conn_id :: string
  sql :: "string option"
  pass_task :: "string option"
  fail_task :: "string option"
  delegate_to :: "string option"
  use_legacy_sql :: bool

text \<open>
  The keyword arguments of the constructor. \<open>None\<close> stands for an argument the caller
  did not pass (or passed as \<^verbatim>\<open>None\<close>, for the four that default to it).
\<close>

record init_kwargs =
  kw_sql :: "string option"
  kw_pass_task :: "string option"
  kw_fail_task :: "string option"
  kw_use_legacy_sql :: "bool option"
  kw_bigquery_conn_id :: "string option"
  kw_delegate_to :: "string option"

text \<open>
  Exceptions. \<open>TypeError\<close> is what subscripting \<^verbatim>\<open>None\<close> raises; \<open>HostError\<close>
  is any exception raised inside a collaborator (the hook, the base-class constructor),
  which the class never catches.
\<close>

datatype error = TypeError | HostError string

text \<open>
  \<^verbatim>\<open>__init__\<close>, lines 85 to 101. The first parameter is the outcome of
  \<^verbatim>\<open>super().__init__(*args, **kwargs)\<close> (together with the \<^verbatim>\<open>apply_defaults\<close>
  decorator, which only checks parameters that have no default, and every parameter of
  this constructor has one): \<open>Some e\<close> when it raises \<open>e\<close>. Nothing else in the
  constructor can raise.
\<close>

definition BranchBQOperator_init :: "error option \<Rightarrow> init_kwargs \<Rightarrow> error + operator" where
  "BranchBQOperator_init base kw =
     (case base of
        Some e \<Rightarrow> Inl e
      | None \<Rightarrow>
          Inr \<lparr> bigquery_conn_id =
                  (case kw_bigquery_conn_id kw of None \<Rightarrow> ''bigquery_default'' | Some c \<Rightarrow> c),
                sql = kw_sql kw,
                pass_task = kw_pass_task kw,
                fail_task = kw_fail_task kw,
                delegate_to = kw_delegate_to kw,
                use_legacy_sql =
                  (case kw_use_legacy_sql kw of None \<Rightarrow> True | Some b \<Rightarrow> b) \<rparr>)"

subsection \<open>The scheduler's context\<close>

text \<open>
  A downstream task is read only through its \<^verbatim>\<open>task_id\<close>. The context is the
  dictionary the scheduler passes to \<^verbatim>\<open>execute\<close>; the three keys read are
  \<^verbatim>\<open>'task'\<close> (for its \<^verbatim>\<open>downstream_list\<close>), \<^verbatim>\<open>'dag_run'\<close> and
  \<^verbatim>\<open>'ti'\<close> (for its \<^verbatim>\<open>execution_date\<close>). The run and the date are opaque
  tokens handed through to the skip operation.
\<close>

record task =
  task_id :: string

record current_task =
  downstream_list :: "task list"

record task_instance =
  execution_date :: int

record run_context =
  ctx_task :: current_task
  ctx_dag_run :: string
  ctx_ti :: task_instance

subsection \<open>Effects\<close>

text \<open>
  The arguments \<^verbatim>\<open>BigQueryHook\<close> is built with (lines 105 to 108), and the hook's
  \<^verbatim>\<open>get_first\<close> as a function of them and of the query: it raises, or returns
  \<^verbatim>\<open>None\<close> (no row), or returns the first row.
\<close>

record hook_args =
  hook_bigquery_conn_id :: string
  hook_use_legacy_sql :: bool
  hook_delegate_to :: "string option"

type_synonym records = "pyval list option"

type_synonym hook = "hook_args \<Rightarrow> string option \<Rightarrow> error + records"

text \<open>The log lines, one constructor per \<^verbatim>\<open>self.log.info\<close> call, with its arguments.\<close>

datatype log_msg =
    ExecutingSQL "string option"
  | Record records
  | QueryReturnedNone
  | TestFailed "string option" records
  | FollowingBranch "string option"
  | DownstreamTaskIds "task list"

text \<open>
  What \<^verbatim>\<open>execute\<close> does to the outside, in order: log lines, the query, and the
  call \<^verbatim>\<open>self.skip(dag_run, execution_date, skip_tasks)\<close>.
\<close>

datatype event =
    is_LogInfo: LogInfo log_msg
  | is_GetFirst: GetFirst hook_args "string option"
  | is_Skip: Skip string int "task list"

subsection \<open>execute\<close>

text \<open>
  Lines 111 to 118: the value of the local \<^verbatim>\<open>branch_to_follow\<close> and the lines logged
  on the way. \<^verbatim>\<open>not records\<close> holds for \<^verbatim>\<open>None\<close> and for the empty row; the
  \<^verbatim>\<open>elif\<close> is reached with a non-empty row only.
\<close>

definition branch_to_follow :: "operator \<Rightarrow> records \<Rightarrow> string option \<times> event list" where
  "branch_to_follow self records =
     (case records of
        None \<Rightarrow> (fail_task self, [LogInfo QueryReturnedNone])
      | Some row \<Rightarrow>
          if row = [] then (fail_task self, [LogInfo QueryReturnedNone])
          else if \<not> list_all py_bool row
            then (fail_task self, [LogInfo (TestFailed (sql self) records)])
          else (pass_task self, []))"

text \<open>The hook \<^verbatim>\<open>execute\<close> builds from the operator's attributes (lines 105 to 108).\<close>

definition BigQueryHook :: "operator \<Rightarrow> hook_args" where
  "BigQueryHook self =
     \<lparr> hook_bigquery_conn_id = bigquery_conn_id self,
       hook_use_legacy_sql = use_legacy_sql self,
       hook_delegate_to = delegate_to self \<rparr>"

text \<open>
  The locals of \<^verbatim>\<open>execute\<close> at its end. The method itself returns \<^verbatim>\<open>None\<close>;
  the model returns these two so that they can be spoken about.
\<close>

record locals =
  loc_branch_to_follow :: "string option"
  loc_skip_tasks :: "task list"

text \<open>
  \<^verbatim>\<open>execute\<close>, lines 103 to 124. The result is the list of events up to the return or
  the raise, and the exception or the locals. An exception of the hook propagates
  (line 109); \<^verbatim>\<open>context['task']\<close> raises \<open>TypeError\<close> when the context is the
  default \<^verbatim>\<open>None\<close> (line 119). A task's \<^verbatim>\<open>task_id\<close> is a string and
  \<^verbatim>\<open>branch_to_follow\<close> a string or \<^verbatim>\<open>None\<close>, so the comparison of line 122 is
  \<open>Some (task_id t) \<noteq> branch\<close>. The skip operation is recorded as an event; what the
  scheduler does inside it is not part of this file.
\<close>

definition execute :: "operator \<Rightarrow> hook \<Rightarrow> run_context option \<Rightarrow> event list \<times> (error + locals)" where
  "execute self get_first context =
     (let hook = BigQueryHook self;
          ev1 = [LogInfo (ExecutingSQL (sql self)), GetFirst hook (sql self)]
      in case get_first hook (sql self) of
           Inl e \<Rightarrow> (ev1, Inl e)
         | Inr records \<Rightarrow>
             (let ev2 = ev1 @ [LogInfo (Record records)];
                  (branch, logged) = branch_to_follow self records;
                  ev3 = ev2 @ logged
              in case context of
                   None \<Rightarrow> (ev3, Inl TypeError)
                 | Some ctx \<Rightarrow>
                     (let downstream_tasks = downstream_list (ctx_task ctx);
                          ev4 = ev3 @ [LogInfo (FollowingBranch branch),
                                       LogInfo (DownstreamTaskIds downstream_tasks)];
                          skip_tasks = filter (\<lambda>t. Some (task_id t) \<noteq> branch) downstream_tasks;
                          ev5 = (if downstream_tasks \<noteq> []
                                 then ev4 @ [Skip (ctx_dag_run ctx) (execution_date (ctx_ti ctx)) skip_tasks]
                                 else ev4)
                      in (ev5, Inr \<lparr> loc_branch_to_follow = branch,
                                     loc_skip_tasks = skip_tasks \<rparr>))))"

subsection \<open>Sample inputs\<close>

text \<open>
  The operator of the class's docstring (lines 45 to 52), and a context whose downstream
  tasks are the two the docstring declares (lines 54 to 60): \<^verbatim>\<open>pass_task\<close> and the
  one whose \<^verbatim>\<open>task_id\<close> is \<^verbatim>\<open>start\<close>.
\<close>

definition docstring_operator :: operator where
  "docstring_operator =
     \<lparr> bigquery_conn_id = ''bigquery_default'',
       sql = Some ''select count(*) from my_dataset.my_table'',
       pass_task = Some ''pass_task'',
       fail_task = Some ''fail_task'',
       delegate_to = None,
       use_legacy_sql = False \<rparr>"

definition docstring_context :: run_context where
  "docstring_context =
     \<lparr> ctx_task = \<lparr> downstream_list = [\<lparr> task_id = ''pass_task'' \<rparr>, \<lparr> task_id = ''start'' \<rparr>] \<rparr>,
       ctx_dag_run = ''scheduled__2019-01-01'',
       ctx_ti = \<lparr> execution_date = 1546300800 \<rparr> \<rparr>"

text \<open>An operator choosing between \<^verbatim>\<open>B\<close> and \<^verbatim>\<open>C\<close>, with downstream tasks A, B, C.\<close>

definition abc_operator :: operator where
  "abc_operator =
     \<lparr> bigquery_conn_id = ''bigquery_default'',
       sql = Some ''select 1'',
       pass_task = Some ''B'',
       fail_task = Some ''C'',
       delegate_to = None,
       use_legacy_sql = True \<rparr>"

definition abc_context :: run_context where
  "abc_context =
     \<lparr> ctx_task = \<lparr> downstream_list =
         [\<lparr> task_id = ''A'' \<rparr>, \<lparr> task_id = ''B'' \<rparr>, \<lparr> task_id = ''C'' \<rparr>] \<rparr>,
       ctx_dag_run = ''manual__1'',
       ctx_ti = \<lparr> execution_date = 0 \<rparr> \<rparr>"

text \<open>A context with no downstream task at all.\<close>

definition leaf_context :: run_context where
  "leaf_context =
     \<lparr> ctx_task = \<lparr> downstream_list = [] \<rparr>,
       ctx_dag_run = ''manual__1'',
       ctx_ti = \<lparr> execution_date = 0 \<rparr> \<rparr>"

text \<open>A hook that answers every query with the same first row (or with no row).\<close>

definition returning :: "records \<Rightarrow> hook" where
  "returning records = (\<lambda>hook query. Inr records)"

section \<open>Properties\<close>

subsection \<open>Shape of a run\<close>

text \<open>The three outcomes of lines 111 to 118.\<close>

lemma branch_absent:
  "fst (branch_to_follow self None) = fail_task self"
  by (simp add: branch_to_follow_def)

lemma branch_empty:
  "fst (branch_to_follow self (Some [])) = fail_task self"
  by (simp add: branch_to_follow_def)

lemma branch_row:
  "row \<noteq> [] \<Longrightarrow>
   fst (branch_to_follow self (Some row)) =
     (if list_all py_bool row then pass_task self else fail_task self)"
  by (simp add: branch_to_follow_def)

lemma branch_no_skip_logged:
  "filter is_Skip (snd (branch_to_follow self records)) = []"
  by (simp add: branch_to_follow_def split: option.split)

text \<open>
  When the hook returns and a context is supplied, \<^verbatim>\<open>execute\<close> reaches its end, with
  the branch of lines 111 to 118 and the comprehension of line 122.
\<close>

lemma execute_returns:
  assumes "get_first (BigQueryHook self) (sql self) = Inr records"
  shows "snd (execute self get_first (Some ctx)) =
           Inr \<lparr> loc_branch_to_follow = fst (branch_to_follow self records),
                 loc_skip_tasks =
                   filter (\<lambda>t. Some (task_id t) \<noteq> fst (branch_to_follow self records))
                     (downstream_list (ctx_task ctx)) \<rparr>"
  using assms
  by (simp add: execute_def Let_def split: prod.split)

text \<open>The skip calls of a run, whatever the hook does.\<close>

lemma execute_skip_calls:
  "filter is_Skip (fst (execute self get_first (Some ctx))) =
     (case get_first (BigQueryHook self) (sql self) of
        Inl e \<Rightarrow> []
      | Inr records \<Rightarrow>
          if downstream_list (ctx_task ctx) = [] then []
          else [Skip (ctx_dag_run ctx) (execution_date (ctx_ti ctx))
                  (filter (\<lambda>t. Some (task_id t) \<noteq> fst (branch_to_follow self records))
                     (downstream_list (ctx_task ctx)))])"
proof (cases "get_first (BigQueryHook self) (sql self)")
  case (Inl e)
  then show ?thesis
    by (simp add: execute_def Let_def)
next
  case (Inr records)
  obtain b logged where bl: "branch_to_follow self records = (b, logged)"
    by (cases "branch_to_follow self records")
  have "filter is_Skip logged = []"
    using branch_no_skip_logged [of self records] bl by simp
  with Inr bl show ?thesis
    by (simp add: execute_def Let_def)
qed

text \<open>Without a context the run stops at line 119, before any skip call.\<close>

lemma execute_no_context_skip_calls:
  "filter is_Skip (fst (execute self get_first None)) = []"
proof (cases "get_first (BigQueryHook self) (sql self)")
  case (Inl e)
  then show ?thesis
    by (simp add: execute_def Let_def)
next
  case (Inr records)
  obtain b logged where bl: "branch_to_follow self records = (b, logged)"
    by (cases "branch_to_follow self records")
  have "filter is_Skip logged = []"
    using branch_no_skip_logged [of self records] bl by simp
  with Inr bl show ?thesis
    by (simp add: execute_def Let_def)
qed

text \<open>
  Lines 111 to 118 read a row only through \<^verbatim>\<open>bool\<close> of its values: two rows with
  the same list of truth values give the same branch.
\<close>

lemma branch_truthiness:
  assumes "map py_bool row1 = map py_bool row2"
  shows "fst (branch_to_follow self (Some row1)) = fst (branch_to_follow self (Some row2))"
proof -
  from assms have e: "row1 = [] \<longleftrightarrow> row2 = []"
    by (metis map_is_Nil_conv)
  have "list_all py_bool row = list_all (\<lambda>b. b) (map py_bool row)" for row
    by (simp add: list.pred_map comp_def)
  with assms have "list_all py_bool row1 = list_all py_bool row2"
    by simp
  with e show ?thesis
    by (simp add: branch_to_follow_def)
qed

subsection \<open>The branch that is followed\<close>

text \<open>
  Claim C1. When the query returns a non-empty row and \<^verbatim>\<open>bool\<close> of every value in it
  is true, a run of \<^verbatim>\<open>execute\<close> (with a context supplied) ends with
  \<^verbatim>\<open>branch_to_follow\<close> equal to \<^verbatim>\<open>pass_task\<close>.
\<close>

theorem all_truthy_follows_pass_task:
  assumes "get_first (BigQueryHook self) (sql self) = Inr (Some row)"
    and "row \<noteq> []"
    and "\<forall>v \<in> set row. py_bool v"
  shows "snd (execute self get_first (Some ctx)) =
           Inr \<lparr> loc_branch_to_follow = pass_task self,
                 loc_skip_tasks =
                   filter (\<lambda>t. Some (task_id t) \<noteq> pass_task self)
                     (downstream_list (ctx_task ctx)) \<rparr>"
proof -
  from assms(3) have "list_all py_bool row"
    by (simp add: list_all_iff)
  with assms(2) have "fst (branch_to_follow self (Some row)) = pass_task self"
    by (simp add: branch_row)
  with execute_returns [of get_first self "Some row" ctx, OF assms(1)] show ?thesis
    by simp
qed

text \<open>The docstring's operator on the row \<^verbatim>\<open>[3]\<close>: it follows \<^verbatim>\<open>pass_task\<close>.\<close>

theorem all_truthy_follows_pass_task_witness:
  "snd (execute docstring_operator (returning (Some [PyInt 3])) (Some docstring_context)) =
     Inr \<lparr> loc_branch_to_follow = Some ''pass_task'',
           loc_skip_tasks = [\<lparr> task_id = ''start'' \<rparr>] \<rparr>"
  using all_truthy_follows_pass_task
    [of "returning (Some [PyInt 3])" docstring_operator "[PyInt 3]" docstring_context]
  by (simp add: returning_def docstring_operator_def docstring_context_def)

text \<open>
  Claim C2. When the row the query returns holds at least one value whose \<^verbatim>\<open>bool\<close>
  is false, the run ends with \<^verbatim>\<open>branch_to_follow\<close> equal to \<^verbatim>\<open>fail_task\<close>.
\<close>

theorem falsy_value_follows_fail_task:
  assumes "get_first (BigQueryHook self) (sql self) = Inr (Some row)"
    and "v \<in> set row"
    and "\<not> py_bool v"
  shows "snd (execute self get_first (Some ctx)) =
           Inr \<lparr> loc_branch_to_follow = fail_task self,
                 loc_skip_tasks =
                   filter (\<lambda>t. Some (task_id t) \<noteq> fail_task self)
                     (downstream_list (ctx_task ctx)) \<rparr>"
proof -
  from assms(2) have ne: "row \<noteq> []"
    by auto
  from assms(2,3) have "\<not> list_all py_bool row"
    by (auto simp: list_all_iff)
  with ne have "fst (branch_to_follow self (Some row)) = fail_task self"
    by (simp add: branch_row)
  with execute_returns [of get_first self "Some row" ctx, OF assms(1)] show ?thesis
    by simp
qed

text \<open>The row \<^verbatim>\<open>[1, ""]\<close>: one empty string is enough for \<^verbatim>\<open>fail_task\<close>.\<close>

theorem falsy_value_follows_fail_task_witness:
  "snd (execute abc_operator (returning (Some [PyInt 1, PyStr ''''])) (Some abc_context)) =
     Inr \<lparr> loc_branch_to_follow = Some ''C'',
           loc_skip_tasks = [\<lparr> task_id = ''A'' \<rparr>, \<lparr> task_id = ''B'' \<rparr>] \<rparr>"
  using falsy_value_follows_fail_task
    [of "returning (Some [PyInt 1, PyStr ''''])" abc_operator "[PyInt 1, PyStr '''']"
        "PyStr ''''" abc_context]
  by (simp add: returning_def abc_operator_def abc_context_def)

text \<open>
  Claim C3. When the query returns no row (\<^verbatim>\<open>None\<close>) or a row of zero columns, the
  run does not raise: it reaches its end, and \<^verbatim>\<open>branch_to_follow\<close> is
  \<^verbatim>\<open>fail_task\<close>.
\<close>

theorem no_row_follows_fail_task:
  assumes "get_first (BigQueryHook self) (sql self) = Inr records"
    and "records = None \<or> records = Some []"
  shows "snd (execute self get_first (Some ctx)) =
           Inr \<lparr> loc_branch_to_follow = fail_task self,
                 loc_skip_tasks =
                   filter (\<lambda>t. Some (task_id t) \<noteq> fail_task self)
                     (downstream_list (ctx_task ctx)) \<rparr>"
proof -
  from assms(2) have "fst (branch_to_follow self records) = fail_task self"
    by (auto simp: branch_absent branch_empty)
  with execute_returns [of get_first self records ctx, OF assms(1)] show ?thesis
    by simp
qed

text \<open>Both cases on the docstring's operator: no row, and the empty row.\<close>

theorem no_row_follows_fail_task_witness:
  "snd (execute docstring_operator (returning None) (Some docstring_context)) =
     Inr \<lparr> loc_branch_to_follow = Some ''fail_task'',
           loc_skip_tasks = [\<lparr> task_id = ''pass_task'' \<rparr>, \<lparr> task_id = ''start'' \<rparr>] \<rparr>
   \<and> snd (execute docstring_operator (returning (Some [])) (Some docstring_context)) =
     Inr \<lparr> loc_branch_to_follow = Some ''fail_task'',
           loc_skip_tasks = [\<lparr> task_id = ''pass_task'' \<rparr>, \<lparr> task_id = ''start'' \<rparr>] \<rparr>"
  using no_row_follows_fail_task [of "returning None" docstring_operator None docstring_context]
    no_row_follows_fail_task [of "returning (Some [])" docstring_operator "Some []" docstring_context]
  by (simp add: returning_def docstring_operator_def docstring_context_def)

text \<open>
  Claim C5. Whatever the query returns (a row, the empty row, or no row), the run ends
  with \<^verbatim>\<open>branch_to_follow\<close> equal to the operator's \<^verbatim>\<open>pass_task\<close> or to its
  \<^verbatim>\<open>fail_task\<close>, and to nothing else.
\<close>

theorem branch_is_pass_task_or_fail_task:
  assumes "get_first (BigQueryHook self) (sql self) = Inr records"
  shows "\<exists>loc. snd (execute self get_first (Some ctx)) = Inr loc
           \<and> (loc_branch_to_follow loc = pass_task self
               \<or> loc_branch_to_follow loc = fail_task self)"
proof -
  have "fst (branch_to_follow self records) = pass_task self
        \<or> fst (branch_to_follow self records) = fail_task self"
    by (simp add: branch_to_follow_def split: option.split)
  with execute_returns [of get_first self records ctx, OF assms] show ?thesis
    by auto
qed

text \<open>
  The row \<^verbatim>\<open>[0]\<close> on the operator that chooses between B and C.
\<close>

theorem branch_is_pass_task_or_fail_task_witness:
  "\<exists>loc. snd (execute abc_operator (returning (Some [PyInt 0])) (Some abc_context)) = Inr loc
     \<and> (loc_branch_to_follow loc = Some ''B'' \<or> loc_branch_to_follow loc = Some ''C'')"
  using branch_is_pass_task_or_fail_task
    [of "returning (Some [PyInt 0])" abc_operator "Some [PyInt 0]" abc_context]
  by (simp add: returning_def abc_operator_def)

text \<open>
  Claim C7. The branch is determined by the row and by \<^verbatim>\<open>pass_task\<close> and
  \<^verbatim>\<open>fail_task\<close> alone: two runs that get the same answer from the query, on operators
  that agree on these two attributes, end with the same \<^verbatim>\<open>branch_to_follow\<close>,
  whatever the other attributes, the hooks and the contexts are. In particular a second
  run of one operator on the same row repeats the first; \<^verbatim>\<open>execute\<close> assigns no
  attribute of \<^verbatim>\<open>self\<close>, so there is nothing a run could leave behind.
\<close>

theorem branch_depends_only_on_row_and_configured_tasks:
  assumes "get_first1 (BigQueryHook self1) (sql self1) = Inr records"
    and "get_first2 (BigQueryHook self2) (sql self2) = Inr records"
    and "pass_task self1 = pass_task self2"
    and "fail_task self1 = fail_task self2"
  shows "\<exists>loc1 loc2.
           snd (execute self1 get_first1 (Some ctx1)) = Inr loc1
           \<and> snd (execute self2 get_first2 (Some ctx2)) = Inr loc2
           \<and> loc_branch_to_follow loc1 = loc_branch_to_follow loc2"
proof -
  from assms(3,4)
  have "fst (branch_to_follow self1 records) = fst (branch_to_follow self2 records)"
    by (simp add: branch_to_follow_def split: option.split)
  with execute_returns [of get_first1 self1 records ctx1, OF assms(1)]
    execute_returns [of get_first2 self2 records ctx2, OF assms(2)]
  show ?thesis
    by simp
qed

text \<open>
  Two operators with different queries and dialects, two hooks and two contexts, one row.
\<close>

theorem branch_depends_only_on_row_and_configured_tasks_witness:
  "\<exists>loc1 loc2.
     snd (execute docstring_operator (returning (Some [PyInt 3])) (Some docstring_context)) = Inr loc1
     \<and> snd (execute (docstring_operator \<lparr> sql := Some ''select 3'', use_legacy_sql := True \<rparr>)
              (\<lambda>hook query. if query = Some ''select 3'' then Inr (Some [PyInt 3])
                             else Inl (HostError ''bad query''))
              (Some leaf_context)) = Inr loc2
     \<and> loc_branch_to_follow loc1 = loc_branch_to_follow loc2"
  using branch_depends_only_on_row_and_configured_tasks
    [of "returning (Some [PyInt 3])" docstring_operator "Some [PyInt 3]"
        "\<lambda>hook query. if query = Some ''select 3'' then Inr (Some [PyInt 3])
                        else Inl (HostError ''bad query'')"
        "docstring_operator \<lparr> sql := Some ''select 3'', use_legacy_sql := True \<rparr>"
        docstring_context leaf_context]
  by (simp add: returning_def)

text \<open>
  Claim C9. The branch depends on the row only through the truth values of its
  columns: two rows of equal length whose values at each position have the same
  \<^verbatim>\<open>bool\<close> lead the same operator to the same \<^verbatim>\<open>branch_to_follow\<close>.
\<close>

theorem branch_depends_only_on_truthiness:
  assumes "get_first1 (BigQueryHook self) (sql self) = Inr (Some row1)"
    and "get_first2 (BigQueryHook self) (sql self) = Inr (Some row2)"
    and "length row1 = length row2"
    and "\<forall>i < length row1. py_bool (row1 ! i) = py_bool (row2 ! i)"
  shows "\<exists>loc1 loc2.
           snd (execute self get_first1 (Some ctx)) = Inr loc1
           \<and> snd (execute self get_first2 (Some ctx)) = Inr loc2
           \<and> loc_branch_to_follow loc1 = loc_branch_to_follow loc2"
proof -
  from assms(3,4) have "map py_bool row1 = map py_bool row2"
    by (simp add: list_eq_iff_nth_eq)
  then have "fst (branch_to_follow self (Some row1)) = fst (branch_to_follow self (Some row2))"
    by (rule branch_truthiness)
  with execute_returns [of get_first1 self "Some row1" ctx, OF assms(1)]
    execute_returns [of get_first2 self "Some row2" ctx, OF assms(2)]
  show ?thesis
    by simp
qed

text \<open>
  The rows \<^verbatim>\<open>[3, ""]\<close> and \<^verbatim>\<open>["yes", 0]\<close>: true then false, both.
\<close>

theorem branch_depends_only_on_truthiness_witness:
  "\<exists>loc1 loc2.
     snd (execute abc_operator (returning (Some [PyInt 3, PyStr ''''])) (Some abc_context)) = Inr loc1
     \<and> snd (execute abc_operator (returning (Some [PyStr ''yes'', PyInt 0])) (Some abc_context)) = Inr loc2
     \<and> loc_branch_to_follow loc1 = loc_branch_to_follow loc2"
  using branch_depends_only_on_truthiness
    [of "returning (Some [PyInt 3, PyStr ''''])" abc_operator "[PyInt 3, PyStr '''']"
        "returning (Some [PyStr ''yes'', PyInt 0])" "[PyStr ''yes'', PyInt 0]" abc_context]
  by (simp add: returning_def less_Suc_eq)

subsection \<open>The tasks that are skipped\<close>

text \<open>
  Claim C4. The list \<^verbatim>\<open>skip_tasks\<close> of a run holds exactly the downstream tasks whose
  \<^verbatim>\<open>task_id\<close> differs from \<^verbatim>\<open>branch_to_follow\<close>: no task with the chosen
  identifier, and every other downstream task. It is the list handed to the skip
  operation when there is a downstream task.
\<close>

theorem skip_tasks_are_the_other_downstream_tasks:
  assumes "get_first (BigQueryHook self) (sql self) = Inr records"
  shows "\<exists>loc. snd (execute self get_first (Some ctx)) = Inr loc
           \<and> loc_skip_tasks loc =
               filter (\<lambda>t. Some (task_id t) \<noteq> loc_branch_to_follow loc)
                 (downstream_list (ctx_task ctx))
           \<and> set (loc_skip_tasks loc) =
               {t \<in> set (downstream_list (ctx_task ctx)).
                  Some (task_id t) \<noteq> loc_branch_to_follow loc}
           \<and> filter is_Skip (fst (execute self get_first (Some ctx))) =
               (if downstream_list (ctx_task ctx) = [] then []
                else [Skip (ctx_dag_run ctx) (execution_date (ctx_ti ctx)) (loc_skip_tasks loc)])"
  using execute_returns [of get_first self records ctx, OF assms]
    execute_skip_calls [of self get_first ctx] assms
  by simp

text \<open>
  Downstream tasks A, B, C and the branch B: A and C are skipped.
\<close>

theorem skip_tasks_are_the_other_downstream_tasks_witness:
  "snd (execute abc_operator (returning (Some [PyInt 3])) (Some abc_context)) =
     Inr \<lparr> loc_branch_to_follow = Some ''B'',
           loc_skip_tasks = [\<lparr> task_id = ''A'' \<rparr>, \<lparr> task_id = ''C'' \<rparr>] \<rparr>
   \<and> filter is_Skip (fst (execute abc_operator (returning (Some [PyInt 3])) (Some abc_context))) =
     [Skip ''manual__1'' 0 [\<lparr> task_id = ''A'' \<rparr>, \<lparr> task_id = ''C'' \<rparr>]]"
proof -
  have ret: "returning (Some [PyInt 3]) (BigQueryHook abc_operator) (sql abc_operator)
               = Inr (Some [PyInt 3])"
    by (simp add: returning_def)
  have br: "fst (branch_to_follow abc_operator (Some [PyInt 3])) = Some ''B''"
    by (simp add: branch_to_follow_def abc_operator_def)
  from skip_tasks_are_the_other_downstream_tasks
    [of "returning (Some [PyInt 3])" abc_operator "Some [PyInt 3]" abc_context, OF ret]
  obtain loc where
    r: "snd (execute abc_operator (returning (Some [PyInt 3])) (Some abc_context)) = Inr loc"
    and s: "loc_skip_tasks loc =
              filter (\<lambda>t. Some (task_id t) \<noteq> loc_branch_to_follow loc)
                (downstream_list (ctx_task abc_context))"
    and k: "filter is_Skip (fst (execute abc_operator (returning (Some [PyInt 3])) (Some abc_context))) =
              (if downstream_list (ctx_task abc_context) = [] then []
               else [Skip (ctx_dag_run abc_context) (execution_date (ctx_ti abc_context))
                       (loc_skip_tasks loc)])"
    by blast
  from r execute_returns [of "returning (Some [PyInt 3])" abc_operator "Some [PyInt 3]" abc_context, OF ret] br
  have b: "loc_branch_to_follow loc = Some ''B''"
    by auto
  with s have sk: "loc_skip_tasks loc = [\<lparr> task_id = ''A'' \<rparr>, \<lparr> task_id = ''C'' \<rparr>]"
    by (simp add: abc_context_def)
  have "loc = \<lparr> loc_branch_to_follow = Some ''B'',
           loc_skip_tasks = [\<lparr> task_id = ''A'' \<rparr>, \<lparr> task_id = ''C'' \<rparr>] \<rparr>"
    using b sk by (cases loc) simp
  with r k sk show ?thesis
    by (simp add: abc_context_def)
qed

text \<open>
  Claim C6. With no downstream task, a run makes no skip call; nor does a run that stops
  for want of a context. With a downstream task, a run whose query returns makes exactly
  one skip call, with the list of line 122.
\<close>

theorem skip_called_only_with_downstream_tasks:
  "(downstream_list (ctx_task ctx) = [] \<longrightarrow>
      filter is_Skip (fst (execute self get_first (Some ctx))) = [])
   \<and> filter is_Skip (fst (execute self get_first None)) = []
   \<and> (\<forall>records. get_first (BigQueryHook self) (sql self) = Inr records \<longrightarrow>
        downstream_list (ctx_task ctx) \<noteq> [] \<longrightarrow>
        filter is_Skip (fst (execute self get_first (Some ctx))) =
          [Skip (ctx_dag_run ctx) (execution_date (ctx_ti ctx))
             (filter (\<lambda>t. Some (task_id t) \<noteq> fst (branch_to_follow self records))
                (downstream_list (ctx_task ctx)))])"
  using execute_skip_calls [of self get_first ctx] execute_no_context_skip_calls [of self get_first]
  by (auto split: sum.splits)

text \<open>
  The same operator and row with no downstream task, with no context, and with A, B, C.
\<close>

theorem skip_called_only_with_downstream_tasks_witness:
  "filter is_Skip (fst (execute abc_operator (returning (Some [PyInt 3])) (Some leaf_context))) = []
   \<and> filter is_Skip (fst (execute abc_operator (returning (Some [PyInt 3])) None)) = []
   \<and> filter is_Skip (fst (execute abc_operator (returning (Some [PyInt 3])) (Some abc_context))) =
       [Skip ''manual__1'' 0 [\<lparr> task_id = ''A'' \<rparr>, \<lparr> task_id = ''C'' \<rparr>]]"
proof -
  have br: "fst (branch_to_follow abc_operator (Some [PyInt 3])) = Some ''B''"
    by (simp add: branch_to_follow_def abc_operator_def)
  show ?thesis
    using skip_called_only_with_downstream_tasks
        [of leaf_context abc_operator "returning (Some [PyInt 3])"]
      skip_called_only_with_downstream_tasks
        [of abc_context abc_operator "returning (Some [PyInt 3])"] br
    by (simp add: returning_def leaf_context_def abc_context_def)
qed

text \<open>
  Claim C10. With at least one downstream task, a run ends; and when its
  \<^verbatim>\<open>branch_to_follow\<close> is the \<^verbatim>\<open>task_id\<close> of no downstream task, its
  \<^verbatim>\<open>skip_tasks\<close> is the whole downstream list, and that list is what the one skip
  call receives.
\<close>

theorem unknown_branch_skips_every_downstream_task:
  assumes "get_first (BigQueryHook self) (sql self) = Inr records"
    and "downstream_list (ctx_task ctx) \<noteq> []"
  shows "\<exists>loc. snd (execute self get_first (Some ctx)) = Inr loc
           \<and> (loc_branch_to_follow loc \<notin> set (map (\<lambda>t. Some (task_id t)) (downstream_list (ctx_task ctx)))
                \<longrightarrow> loc_skip_tasks loc = downstream_list (ctx_task ctx)
                  \<and> filter is_Skip (fst (execute self get_first (Some ctx))) =
                      [Skip (ctx_dag_run ctx) (execution_date (ctx_ti ctx))
                         (downstream_list (ctx_task ctx))])"
proof -
  let ?b = "fst (branch_to_follow self records)"
  let ?ds = "downstream_list (ctx_task ctx)"
  have "filter (\<lambda>t. Some (task_id t) \<noteq> ?b) ?ds = ?ds" if "?b \<notin> set (map (\<lambda>t. Some (task_id t)) ?ds)"
    using that by (force simp: filter_id_conv)
  with execute_returns [of get_first self records ctx, OF assms(1)]
    execute_skip_calls [of self get_first ctx] assms
  show ?thesis
    by simp
qed

text \<open>
  The docstring's own example: \<^verbatim>\<open>fail_task='fail_task'\<close>, while the task declared
  for it has the \<^verbatim>\<open>task_id\<close> \<^verbatim>\<open>start\<close>. On the row \<^verbatim>\<open>[0]\<close> both downstream
  tasks are skipped.
\<close>

theorem unknown_branch_skips_every_downstream_task_witness:
  "filter is_Skip (fst (execute docstring_operator (returning (Some [PyInt 0])) (Some docstring_context))) =
     [Skip ''scheduled__2019-01-01'' 1546300800
        [\<lparr> task_id = ''pass_task'' \<rparr>, \<lparr> task_id = ''start'' \<rparr>]]"
proof -
  have ret: "returning (Some [PyInt 0]) (BigQueryHook docstring_operator) (sql docstring_operator)
               = Inr (Some [PyInt 0])"
    by (simp add: returning_def)
  have br: "fst (branch_to_follow docstring_operator (Some [PyInt 0])) = Some ''fail_task''"
    by (simp add: branch_to_follow_def docstring_operator_def)
  from unknown_branch_skips_every_downstream_task
    [of "returning (Some [PyInt 0])" docstring_operator "Some [PyInt 0]" docstring_context, OF ret]
  obtain loc where
    r: "snd (execute docstring_operator (returning (Some [PyInt 0])) (Some docstring_context)) = Inr loc"
    and k: "loc_branch_to_follow loc \<notin>
              set (map (\<lambda>t. Some (task_id t)) (downstream_list (ctx_task docstring_context))) \<longrightarrow>
            filter is_Skip (fst (execute docstring_operator (returning (Some [PyInt 0]))
                (Some docstring_context))) =
              [Skip (ctx_dag_run docstring_context) (execution_date (ctx_ti docstring_context))
                 (downstream_list (ctx_task docstring_context))]"
    by (auto simp: docstring_context_def)
  from r execute_returns
    [of "returning (Some [PyInt 0])" docstring_operator "Some [PyInt 0]" docstring_context, OF ret] br
  have "loc_branch_to_follow loc = Some ''fail_task''"
    by auto
  with k show ?thesis
    by (simp add: docstring_context_def)
qed

subsection \<open>Construction\<close>

text \<open>
  Claim C8 says that constructing the operator without \<^verbatim>\<open>pass_task\<close> or
  \<^verbatim>\<open>fail_task\<close> raises a configuration error. It does not: with neither given (and
  the base-class constructor succeeding), the constructor returns an operator.
\<close>

theorem init_without_branch_tasks_counterexample:
  "\<not> isl (BranchBQOperator_init None
      \<lparr> kw_sql = Some ''select 1'', kw_pass_task = None, kw_fail_task = None,
        kw_use_legacy_sql = None, kw_bigquery_conn_id = None, kw_delegate_to = None \<rparr>)"
  by (simp add: BranchBQOperator_init_def)

text \<open>
  Claim C8, amended. The constructor checks neither attribute. When the base-class
  constructor returns, so does this one, and the operator holds \<^verbatim>\<open>pass_task\<close> and
  \<^verbatim>\<open>fail_task\<close> as they were given, \<^verbatim>\<open>None\<close> included; the only exception of
  the constructor is one the base class raises.
\<close>

theorem init_stores_branch_tasks_unchecked:
  "(\<exists>self. BranchBQOperator_init None kw = Inr self
      \<and> pass_task self = kw_pass_task kw \<and> fail_task self = kw_fail_task kw)
   \<and> BranchBQOperator_init (Some e) kw = Inl e"
  by (simp add: BranchBQOperator_init_def)

end
